theory Spec2Isabelle
  imports Complex_Main
begin

section \<open>Numbers\<close>

text \<open>
  The program computes with JavaScript numbers. They are embedded as \<^typ>\<open>real\<close>: the
  development describes the arithmetic the program writes down, on runs whose intermediate
  values are finite, and it does not describe rounding. Where the source divides by a
  value that can be \<open>0\<close>, the definition writes out what the comparison on the quotient
  gives, or the theorem that depends on the quotient says which divisors it covers.
  The mouth layer is the exception: its quotient, its power and its \<open>delta\<close> lead out of
  the finite numbers on inputs the layer accepts, so it is embedded on the type
  \<open>number\<close> below, which has \<open>NaN\<close> and the two infinities.
\<close>

type_synonym vec3 = "real \<times> real \<times> real"

definition degToRad :: "real \<Rightarrow> real" where
  "degToRad degrees = degrees * (pi / 180)"

section \<open>Easing library (easing.ts)\<close>

definition easeInSine :: "real \<Rightarrow> real" where
  "easeInSine t = 1 - cos ((t * pi) / 2)"

definition easeOutSine :: "real \<Rightarrow> real" where
  "easeOutSine t = sin ((t * pi) / 2)"

definition easeInOutSine :: "real \<Rightarrow> real" where
  "easeInOutSine t = - (cos (pi * t) - 1) / 2"



definition easeInOutCubic :: "real \<Rightarrow> real" where
  "easeInOutCubic t = (if t < 0.5 then 4 * t * t * t else 1 - ((- 2) * t + 2) ^ 3 / 2)"

text \<open>
  \<open>smoothDamp\<close> takes the velocity in a one-field object and overwrites it; the embedding
  returns the pair of the output and the new velocity. The default \<open>maxSpeed = Infinity\<close>
  is \<open>None\<close>: then \<open>maxChange\<close> is infinite and clamping \<open>change\<close> leaves it as it is.
  \<open>smoothDampStep\<close> is the body up to the overshoot test (output and velocity before the
  test), \<open>overshoots\<close> is the test itself. This is the function on finite numbers with
  \<open>deltaTime > 0\<close>; at \<open>deltaTime = 0\<close> the overshoot branch of the program stores
  \<open>0 / 0 = NaN\<close> where a real quotient is \<open>0\<close>, and \<open>smoothDampJS\<close> below has that case.
\<close>

definition smoothDampStep :: "real \<Rightarrow> real \<Rightarrow> real \<Rightarrow> real \<Rightarrow> real \<Rightarrow> real option \<Rightarrow> real \<times> real" where
  "smoothDampStep current target currentVelocity smoothTime0 deltaTime maxSpeed =
     (let smoothTime = max 0.0001 smoothTime0;
          omega = 2 / smoothTime;
          x = omega * deltaTime;
          expo = 1 / (1 + x + 0.48 * x * x + 0.235 * x * x * x);
          change0 = current - target;
          change = (case maxSpeed of
                      None \<Rightarrow> change0
                    | Some ms \<Rightarrow> max (- (ms * smoothTime)) (min (ms * smoothTime) change0));
          target' = current - change;
          temp = (currentVelocity + omega * change) * deltaTime;
          velocity' = (currentVelocity - omega * temp) * expo;
          output = target' + (change + temp) * expo
      in (output, velocity'))"

definition overshoots :: "real \<Rightarrow> real \<Rightarrow> real \<Rightarrow> bool" where
  "overshoots current originalTo output = ((originalTo - current > 0) = (output > originalTo))"

definition smoothDamp :: "real \<Rightarrow> real \<Rightarrow> real \<Rightarrow> real \<Rightarrow> real \<Rightarrow> real option \<Rightarrow> real \<times> real" where
  "smoothDamp current target currentVelocity smoothTime deltaTime maxSpeed =
     (let originalTo = target;
          (output, velocity') = smoothDampStep current target currentVelocity smoothTime deltaTime maxSpeed
      in if overshoots current originalTo output
         then (originalTo, (originalTo - originalTo) / deltaTime)
         else (output, velocity'))"

text \<open>
  \<open>x % 1\<close> in JavaScript keeps the sign of \<open>x\<close>: it is \<open>x\<close> minus \<open>x\<close> truncated
  towards zero.
\<close>

definition rem1 :: "real \<Rightarrow> real" where
  "rem1 x = (if 0 \<le> x then frac x else - frac (- x))"

definition organicOscillation :: "real \<Rightarrow> real \<Rightarrow> real" where
  "organicOscillation time baseFrequency =
     (let primary = sin (time * baseFrequency * pi * 2);
          harmonic1 = sin (time * baseFrequency * 1.5 * pi * 2) * 0.2;
          harmonic2 = sin (time * baseFrequency * 0.7 * pi * 2) * 0.15;
          combined = (primary + harmonic1 + harmonic2) / 1.35
      in combined)"

definition breathingCurve :: "real \<Rightarrow> real \<Rightarrow> real" where
  "breathingCurve time breathsPerMinute =
     (let cyclesPerSecond = breathsPerMinute / 60;
          phase = rem1 (time * cyclesPerSecond)
      in if phase < 0.4 then easeOutSine (phase / 0.4)
         else 1 - easeInSine ((phase - 0.4) / 0.6))"

text \<open>\<open>headMicroMovement\<close> returns the object \<open>{yaw, pitch, roll}\<close>, here in that order.\<close>

definition headMicroMovement :: "real \<Rightarrow> real \<times> real \<times> real" where
  "headMicroMovement time =
     (organicOscillation time 0.1 * 0.5 + organicOscillation time 0.17 * 0.3,
      organicOscillation time 0.08 * 0.3 + organicOscillation time 0.13 * 0.2,
      organicOscillation time 0.05 * 0.15)"

section \<open>JavaScript numbers with NaN and the infinities\<close>

text \<open>
  The mouth layer divides by \<open>1 - threshold\<close>, raises a quotient to the power \<open>0.8\<close> and
  hands \<open>smoothDamp\<close> a \<open>delta\<close> that can be \<open>0\<close>, so its numbers are embedded with the
  values a JavaScript number has besides the finite ones: \<open>Infinity\<close>, \<open>-Infinity\<close> and
  \<open>NaN\<close>. The operations are those of the language on these values, without rounding and
  without overflow of finite results; the two zeros are one value, and a zero divisor is
  read as \<open>+0\<close>.
\<close>

datatype number = Fin real | PInf | NInf | NaN

instantiation number :: "{one, plus, minus, uminus, times, inverse, ord}"
begin

definition one_number :: number where
  "one_number = Fin 1"

fun plus_number :: "number \<Rightarrow> number \<Rightarrow> number" where
  "plus_number (Fin a) (Fin b) = Fin (a + b)"
| "plus_number NaN b = NaN"
| "plus_number a NaN = NaN"
| "plus_number PInf NInf = NaN"
| "plus_number NInf PInf = NaN"
| "plus_number PInf b = PInf"
| "plus_number a PInf = PInf"
| "plus_number NInf b = NInf"
| "plus_number a NInf = NInf"

fun uminus_number :: "number \<Rightarrow> number" where
  "uminus_number (Fin a) = Fin (- a)"
| "uminus_number PInf = NInf"
| "uminus_number NInf = PInf"
| "uminus_number NaN = NaN"

definition minus_number :: "number \<Rightarrow> number \<Rightarrow> number" where
  "minus_number a b = a + (- b)"

fun times_number :: "number \<Rightarrow> number \<Rightarrow> number" where
  "times_number (Fin a) (Fin b) = Fin (a * b)"
| "times_number NaN b = NaN"
| "times_number a NaN = NaN"
| "times_number PInf (Fin b) = (if 0 < b then PInf else if b < 0 then NInf else NaN)"
| "times_number NInf (Fin b) = (if 0 < b then NInf else if b < 0 then PInf else NaN)"
| "times_number (Fin a) PInf = (if 0 < a then PInf else if a < 0 then NInf else NaN)"
| "times_number (Fin a) NInf = (if 0 < a then NInf else if a < 0 then PInf else NaN)"
| "times_number PInf PInf = PInf"
| "times_number PInf NInf = NInf"
| "times_number NInf PInf = NInf"
| "times_number NInf NInf = PInf"

fun divide_number :: "number \<Rightarrow> number \<Rightarrow> number" where
  "divide_number (Fin a) (Fin b) =
     (if b = 0 then (if 0 < a then PInf else if a < 0 then NInf else NaN) else Fin (a / b))"
| "divide_number NaN b = NaN"
| "divide_number a NaN = NaN"
| "divide_number (Fin a) PInf = Fin 0"
| "divide_number (Fin a) NInf = Fin 0"
| "divide_number PInf (Fin b) = (if b < 0 then NInf else PInf)"
| "divide_number NInf (Fin b) = (if b < 0 then PInf else NInf)"
| "divide_number PInf b = NaN"
| "divide_number NInf b = NaN"

definition inverse_number :: "number \<Rightarrow> number" where
  "inverse_number a = divide (Fin 1) a"

fun less_number :: "number \<Rightarrow> number \<Rightarrow> bool" where
  "less_number (Fin a) (Fin b) = (a < b)"
| "less_number NaN b = False"
| "less_number a NaN = False"
| "less_number a NInf = False"
| "less_number PInf b = False"
| "less_number NInf b = True"
| "less_number a PInf = True"

definition less_eq_number :: "number \<Rightarrow> number \<Rightarrow> bool" where
  "less_eq_number a b = (a < b \<or> (a = b \<and> a \<noteq> NaN))"

instance ..

end

text \<open>\<open>Math.max\<close> and \<open>Math.min\<close> of two numbers: \<open>NaN\<close> when either is.\<close>

definition jsMax :: "number \<Rightarrow> number \<Rightarrow> number" where
  "jsMax a b = (if a = NaN \<or> b = NaN then NaN else if a < b then b else a)"

definition jsMin :: "number \<Rightarrow> number \<Rightarrow> number" where
  "jsMin a b = (if a = NaN \<or> b = NaN then NaN else if b < a then b else a)"




section \<open>Configuration values (poses.ts)\<close>

text \<open>
  A pose is a \<open>Record<string, [number, number, number]>\<close> of degrees: a partial map from
  bone names to triples. The records keep the fields the controller reads; record fields
  carry a short prefix where the source uses the same name for a local variable.
\<close>

type_synonym Pose = "string \<rightharpoonup> vec3"

record PosePreset =
  bones :: Pose

datatype Hand = LeftHand | RightHand | BothHands

record Fingers =
  thumb :: "real option"
  index :: "real option"
  middle :: "real option"
  ring :: "real option"
  pinky :: "real option"

record HandGesture =
  hand :: Hand
  fingers :: Fingers

record Keyframe =
  kf_time :: real
  kf_bones :: Pose

record BodyGesture =
  g_duration :: real
  loop :: bool
  keyframes :: "Keyframe list"

datatype MotionType = Breathing | Sway | Bounce | Float | Walk | Custom

record MotionParams =
  p_amplitude :: "real option"
  p_strideLength :: "real option"
  p_armSwing :: "real option"

record BodyMotion =
  m_speed :: real
  m_intensity :: real
  m_type :: MotionType
  m_params :: "MotionParams option"

text \<open>
  \<open>v || d\<close> on an optional number: the default is taken when the value is missing or \<open>0\<close>.
  \<open>o || [0, 0, 0]\<close> on an optional triple: an array is never falsy.
\<close>

definition orDefault :: "real option \<Rightarrow> real \<Rightarrow> real" where
  "orDefault v d = (case v of None \<Rightarrow> d | Some x \<Rightarrow> if x = 0 then d else x)"

definition orZero :: "vec3 option \<Rightarrow> vec3" where
  "orZero v = (case v of None \<Rightarrow> (0, 0, 0) | Some r \<Rightarrow> r)"

definition noParams :: MotionParams where
  "noParams = \<lparr>p_amplitude = None, p_strideLength = None, p_armSwing = None\<rparr>"

section \<open>Procedural motion offsets (PoseController.ts)\<close>

definition calculateBreathingOffsets :: "real \<Rightarrow> real \<Rightarrow> Pose \<Rightarrow> Pose" where
  "calculateBreathingOffsets time amplitude offsets =
     (let breathValue = breathingCurve time 14
      in offsets
          (''chest'' \<mapsto> (breathValue * amplitude * 0.4, 0, 0),
           ''spine'' \<mapsto> (breathValue * amplitude * 0.2, 0, 0),
           ''leftUpperArm'' \<mapsto> (- breathValue * amplitude * 0.1, 0, - breathValue * amplitude * 0.15),
           ''rightUpperArm'' \<mapsto> (- breathValue * amplitude * 0.1, 0, breathValue * amplitude * 0.15)))"

definition calculateSwayOffsets :: "real \<Rightarrow> real \<Rightarrow> Pose \<Rightarrow> Pose" where
  "calculateSwayOffsets time amplitude offsets =
     (let swayValue = organicOscillation time 0.15;
          (sx, sy, sz) = orZero (offsets ''spine'');
          offsets1 = offsets(''spine'' \<mapsto> (sx, sy, sz + swayValue * amplitude));
          (hx, hy, hz) = orZero (offsets1 ''head'')
      in offsets1(''head'' \<mapsto> (hx, hy + swayValue * amplitude * 0.2, hz + swayValue * amplitude * 0.3)))"

definition calculateHeadMicroMovement :: "real \<Rightarrow> real \<Rightarrow> Pose \<Rightarrow> Pose" where
  "calculateHeadMicroMovement time intensity offsets =
     (let (yaw, pitch, roll) = headMicroMovement time;
          (hx, hy, hz) = orZero (offsets ''head'');
          offsets1 = offsets(''head'' \<mapsto> (hx + pitch * intensity, hy + yaw * intensity, hz + roll * intensity));
          (nx, ny, nz) = orZero (offsets1 ''neck'')
      in offsets1(''neck'' \<mapsto> (nx + pitch * intensity * 0.3, ny + yaw * intensity * 0.2, nz)))"

definition calculateWalkingOffsets :: "real \<Rightarrow> MotionParams \<Rightarrow> real \<Rightarrow> Pose \<Rightarrow> Pose" where
  "calculateWalkingOffsets time params intensity offsets =
     (let strideLength = orDefault (p_strideLength params) 25 * intensity;
          armSwing = orDefault (p_armSwing params) 30 * intensity;
          bodyBob = orDefault (p_amplitude params) 3 * intensity;
          walkCycle = time * pi * 2;
          legPhase = sin walkCycle;
          legPhaseOffset = sin (walkCycle + pi);
          kneePhase = max 0 (sin walkCycle) * 0.5;
          kneePhaseOffset = max 0 (sin (walkCycle + pi)) * 0.5;
          leftKneeBend = max 0 legPhase * strideLength * 0.8 + kneePhase * 20;
          rightKneeBend = max 0 legPhaseOffset * strideLength * 0.8 + kneePhaseOffset * 20;
          doubleBounce = \<bar>sin (walkCycle * 2)\<bar>
      in offsets
          (''leftUpperLeg'' \<mapsto> (legPhase * strideLength, 0, 0),
           ''rightUpperLeg'' \<mapsto> (legPhaseOffset * strideLength, 0, 0),
           ''leftLowerLeg'' \<mapsto> (leftKneeBend, 0, 0),
           ''rightLowerLeg'' \<mapsto> (rightKneeBend, 0, 0),
           ''leftUpperArm'' \<mapsto> (- legPhaseOffset * armSwing * 0.6, 0, 0),
           ''rightUpperArm'' \<mapsto> (- legPhase * armSwing * 0.6, 0, 0),
           ''leftLowerArm'' \<mapsto> (max 0 (- legPhaseOffset) * armSwing * 0.3, 0, 0),
           ''rightLowerArm'' \<mapsto> (max 0 (- legPhase) * armSwing * 0.3, 0, 0),
           ''spine'' \<mapsto> (bodyBob * 0.5, legPhase * bodyBob * 0.3, legPhase * bodyBob * 0.2),
           ''chest'' \<mapsto> (doubleBounce * bodyBob * 0.2, - legPhase * bodyBob * 0.2, 0),
           ''head'' \<mapsto> (- doubleBounce * bodyBob * 0.1, legPhase * bodyBob * 0.1, 0),
           ''neck'' \<mapsto> (0, - legPhase * bodyBob * 0.15, 0),
           ''hips'' \<mapsto> (0, legPhase * bodyBob * 0.5, legPhase * bodyBob * 0.3)))"

section \<open>The pose controller (PoseController.ts)\<close>

text \<open>
  A rotation \<open>{x, y, z}\<close> is a triple of radians. The rig is the part of the VRM model the
  controller touches: \<open>humanoid\<close> gives the rotation of each normalized bone node the model
  has (a bone that is missing, or whose lookup throws inside the source's \<open>try\<close>, is absent
  from the map), \<open>scene\<close> is \<open>scene.position.y\<close>.
\<close>

type_synonym BoneRotation = vec3

record BoneState =
  current :: BoneRotation
  target :: BoneRotation
  velocity :: vec3

record PoseTransition =
  fromPose :: Pose
  toPose :: Pose
  startTime :: real
  duration :: real
  easing :: "real \<Rightarrow> real"

record GestureAnimation =
  gesture :: BodyGesture
  ga_startTime :: real
  isPlaying :: bool

record VRM =
  humanoid :: "(string \<rightharpoonup> BoneRotation) option"
  scene :: "real option"

record PoseController =
  vrm :: "VRM option"
  basePose :: Pose
  boneStates :: "string \<rightharpoonup> BoneState"
  poseTransition :: "PoseTransition option"
  currentMotion :: "BodyMotion option"
  gestureAnimation :: "GestureAnimation option"
  motionTime :: real
  elapsedTime :: real
  basePosition :: vec3
  currentPositionY :: real
  positionVelocityY :: real
  transitionDuration :: real
  smoothTime :: real

datatype error = TypeError

definition BONE_MAP :: "(string \<times> string) list" where
  "BONE_MAP =
     [(''spine'', ''spine''), (''chest'', ''chest''), (''neck'', ''neck''), (''head'', ''head''),
      (''leftUpperArm'', ''leftUpperArm''), (''leftLowerArm'', ''leftLowerArm''),
      (''leftHand'', ''leftHand''),
      (''rightUpperArm'', ''rightUpperArm''), (''rightLowerArm'', ''rightLowerArm''),
      (''rightHand'', ''rightHand''),
      (''leftUpperLeg'', ''leftUpperLeg''), (''leftLowerLeg'', ''leftLowerLeg''),
      (''leftFoot'', ''leftFoot''),
      (''rightUpperLeg'', ''rightUpperLeg''), (''rightLowerLeg'', ''rightLowerLeg''),
      (''rightFoot'', ''rightFoot''),
      (''hips'', ''hips'')]"

definition DEFAULT_RELAXED_POSE :: Pose where
  "DEFAULT_RELAXED_POSE =
     [''leftUpperArm'' \<mapsto> (20, 0, - 70),
      ''rightUpperArm'' \<mapsto> (20, 0, 70),
      ''leftLowerArm'' \<mapsto> (0, 0, - 15),
      ''rightLowerArm'' \<mapsto> (0, 0, 15),
      ''spine'' \<mapsto> (2, 0, 0),
      ''chest'' \<mapsto> (0, 0, 0),
      ''neck'' \<mapsto> (0, 0, 0),
      ''head'' \<mapsto> (0, 0, 0)]"

text \<open>The field initialisers of the class.\<close>

definition newPoseController :: PoseController where
  "newPoseController =
     \<lparr>vrm = None, basePose = DEFAULT_RELAXED_POSE, boneStates = Map.empty,
      poseTransition = None, currentMotion = None, gestureAnimation = None,
      motionTime = 0, elapsedTime = 0, basePosition = (0, 0, 0),
      currentPositionY = 0, positionVelocityY = 0,
      transitionDuration = 0.4, smoothTime = 0.15\<rparr>"

text \<open>\<open>this.vrm?.humanoid\<close>, and an assignment to the rotation of a bone node of the rig.\<close>

definition humanoidOf :: "PoseController \<Rightarrow> (string \<rightharpoonup> BoneRotation) option" where
  "humanoidOf s = (case vrm s of None \<Rightarrow> None | Some v \<Rightarrow> humanoid v)"

definition setBoneRotation :: "string \<Rightarrow> BoneRotation \<Rightarrow> PoseController \<Rightarrow> PoseController" where
  "setBoneRotation name r s =
     (case vrm s of
        None \<Rightarrow> s
      | Some v \<Rightarrow>
          (case humanoid v of
             None \<Rightarrow> s
           | Some h \<Rightarrow> s\<lparr>vrm := Some (v\<lparr>humanoid := Some (h(name \<mapsto> r))\<rparr>)\<rparr>))"

text \<open>
  The loops of the controller run over the entries of a record or map and, at each entry,
  write only the bone state (and rig node) of that entry's own bone. A loop that writes bone
  states only is embedded as the map it leaves behind, bone by bone. A loop that also
  writes the rig looks every name up in \<open>BONE_MAP\<close> and skips the others: it is a fold over
  the entries of \<open>BONE_MAP\<close>, whose keys are distinct.
\<close>

definition initializeBoneStates :: "PoseController \<Rightarrow> PoseController" where
  "initializeBoneStates s =
     (case humanoidOf s of
        None \<Rightarrow> s
      | Some h \<Rightarrow>
          s\<lparr>boneStates := (\<lambda>boneName.
               case map_of BONE_MAP boneName of
                 None \<Rightarrow> boneStates s boneName
               | Some vrmBoneName \<Rightarrow>
                   (case h vrmBoneName of
                      None \<Rightarrow> boneStates s boneName
                    | Some rotation \<Rightarrow>
                        Some \<lparr>current = rotation, target = rotation, velocity = (0, 0, 0)\<rparr>))\<rparr>)"

definition setBasePosition :: "vec3 \<Rightarrow> PoseController \<Rightarrow> PoseController" where
  "setBasePosition position s = s\<lparr>basePosition := position\<rparr>"

definition setTransitionDuration :: "real \<Rightarrow> PoseController \<Rightarrow> PoseController" where
  "setTransitionDuration d s = s\<lparr>transitionDuration := d\<rparr>"

definition radians :: "vec3 \<Rightarrow> BoneRotation" where
  "radians rotation = (case rotation of (a, b, c) \<Rightarrow> (degToRad a, degToRad b, degToRad c))"

definition poseBoneImmediate :: "Pose \<Rightarrow> string \<times> string \<Rightarrow> PoseController \<Rightarrow> PoseController" where
  "poseBoneImmediate pose entry s =
     (case entry of (boneName, vrmBoneName) \<Rightarrow>
        (case pose boneName of
           None \<Rightarrow> s
         | Some rotation \<Rightarrow>
             (case humanoidOf s of
                None \<Rightarrow> s
              | Some h \<Rightarrow>
                  (case h vrmBoneName of
                     None \<Rightarrow> s
                   | Some bone \<Rightarrow>
                       (let s1 = setBoneRotation vrmBoneName (radians rotation) s
                        in case boneStates s1 boneName of
                             None \<Rightarrow> s1
                           | Some state \<Rightarrow>
                               s1\<lparr>boneStates := (boneStates s1)(boneName \<mapsto>
                                    \<lparr>current = radians rotation, target = radians rotation,
                                     velocity = (0, 0, 0)\<rparr>)\<rparr>)))))"

definition applyPoseImmediate :: "Pose \<Rightarrow> PoseController \<Rightarrow> PoseController" where
  "applyPoseImmediate pose s =
     (case humanoidOf s of
        None \<Rightarrow> s
      | Some h \<Rightarrow> (fold (poseBoneImmediate pose) BONE_MAP s)\<lparr>basePose := pose\<rparr>)"

definition init :: "VRM \<Rightarrow> PoseController \<Rightarrow> PoseController" where
  "init v s =
     applyPoseImmediate DEFAULT_RELAXED_POSE
       (initializeBoneStates
          (s\<lparr>vrm := Some v, motionTime := 0, elapsedTime := 0, boneStates := Map.empty,
             poseTransition := None, currentPositionY := 0, positionVelocityY := 0\<rparr>))"

definition degrees :: "BoneRotation \<Rightarrow> vec3" where
  "degrees r = (case r of (a, b, c) \<Rightarrow> (a / (pi / 180), b / (pi / 180), c / (pi / 180)))"

definition applyPose :: "PosePreset \<Rightarrow> PoseController \<Rightarrow> PoseController" where
  "applyPose pose s =
     (case humanoidOf s of
        None \<Rightarrow> s
      | Some h \<Rightarrow>
          (let merged = basePose s ++ bones pose;
               fromPose0 = (\<lambda>boneName.
                 case merged boneName of
                   None \<Rightarrow> None
                 | Some r \<Rightarrow>
                     (case boneStates s boneName of
                        Some state \<Rightarrow> Some (degrees (current state))
                      | None \<Rightarrow> Some (orZero (basePose s boneName))))
           in s\<lparr>poseTransition := Some \<lparr>fromPose = fromPose0, toPose = merged,
                    startTime = elapsedTime s, duration = transitionDuration s,
                    easing = easeInOutCubic\<rparr>,
                 basePose := merged\<rparr>))"

subsection \<open>Hand gestures\<close>

datatype Side = LeftSide | RightSide

definition sidePrefix :: "Side \<Rightarrow> string" where
  "sidePrefix side = (if side = LeftSide then ''left'' else ''right'')"

text \<open>The table \<open>fingerBones\<close> of \<open>applyFingerPose\<close>: the joints of a finger and \<open>isThumb\<close>.\<close>

definition fingerBones :: "string \<Rightarrow> (string \<times> string list \<times> bool) list" where
  "fingerBones prefix =
     [(''thumb'', [prefix @ ''ThumbMetacarpal'', prefix @ ''ThumbProximal'', prefix @ ''ThumbDistal''], True),
      (''index'', [prefix @ ''IndexProximal'', prefix @ ''IndexIntermediate'', prefix @ ''IndexDistal''], False),
      (''middle'', [prefix @ ''MiddleProximal'', prefix @ ''MiddleIntermediate'', prefix @ ''MiddleDistal''], False),
      (''ring'', [prefix @ ''RingProximal'', prefix @ ''RingIntermediate'', prefix @ ''RingDistal''], False),
      (''pinky'', [prefix @ ''LittleProximal'', prefix @ ''LittleIntermediate'', prefix @ ''LittleDistal''], False)]"

text \<open>
  \<open>Object.entries(fingers)\<close>: the fingers the gesture lists. A finger with no value is
  skipped by the loop either way. The fingers have disjoint joints, so the order of the
  entries does not matter.
\<close>

definition fingerEntries :: "Fingers \<Rightarrow> (string \<times> real option) list" where
  "fingerEntries f =
     [(''thumb'', thumb f), (''index'', index f), (''middle'', middle f),
      (''ring'', ring f), (''pinky'', pinky f)]"

definition maxCurl :: real where
  "maxCurl = pi / 2"

definition curlDistribution :: "bool \<Rightarrow> real list" where
  "curlDistribution isThumb = (if isThumb then [0.3, 0.4, 0.3] else [0.5, 0.35, 0.15])"

text \<open>The body of the loop over the joints of one finger, at joint \<open>i\<close>.\<close>

definition curlJoint :: "Side \<Rightarrow> bool \<Rightarrow> real \<Rightarrow> nat \<times> string \<Rightarrow> PoseController \<Rightarrow> PoseController" where
  "curlJoint side isThumb curl joint s =
     (case joint of (i, boneName) \<Rightarrow>
        (case humanoidOf s of
           None \<Rightarrow> s
         | Some h \<Rightarrow>
             (case h boneName of
                None \<Rightarrow> s
              | Some (x, y, z) \<Rightarrow>
                  (let jointCurl = curl * maxCurl * (curlDistribution isThumb ! i) * 2.5
                   in if isThumb then
                        (if i = 0 then
                           setBoneRotation boneName
                             (x,
                              if side = LeftSide then jointCurl * 0.5 else - jointCurl * 0.5,
                              if side = LeftSide then jointCurl * 0.3 else - jointCurl * 0.3) s
                         else
                           setBoneRotation boneName
                             (x, y, if side = LeftSide then jointCurl * 0.8 else - jointCurl * 0.8) s)
                      else setBoneRotation boneName (jointCurl, y, z) s))))"

definition curlFinger :: "Side \<Rightarrow> string \<times> real option \<Rightarrow> PoseController \<Rightarrow> PoseController" where
  "curlFinger side entry s =
     (case entry of (fingerName, curlOpt) \<Rightarrow>
        (case curlOpt of
           None \<Rightarrow> s
         | Some curl \<Rightarrow>
             (case map_of (fingerBones (sidePrefix side)) fingerName of
                None \<Rightarrow> s
              | Some (joints, isThumb) \<Rightarrow>
                  fold (curlJoint side isThumb curl) (enumerate 0 joints) s)))"

definition applyFingerPose :: "Side \<Rightarrow> Fingers \<Rightarrow> PoseController \<Rightarrow> PoseController" where
  "applyFingerPose side f s =
     (case humanoidOf s of
        None \<Rightarrow> s
      | Some h \<Rightarrow> fold (curlFinger side) (fingerEntries f) s)"

definition applyHandGesture :: "HandGesture \<Rightarrow> PoseController \<Rightarrow> PoseController" where
  "applyHandGesture g s =
     (case humanoidOf s of
        None \<Rightarrow> s
      | Some h \<Rightarrow>
          (let s1 = (if hand g = LeftHand \<or> hand g = BothHands
                     then applyFingerPose LeftSide (fingers g) s else s)
           in if hand g = RightHand \<or> hand g = BothHands
              then applyFingerPose RightSide (fingers g) s1 else s1))"

subsection \<open>Gestures, motion and the tick\<close>

definition playBodyGesture :: "BodyGesture \<Rightarrow> PoseController \<Rightarrow> PoseController" where
  "playBodyGesture g s =
     s\<lparr>gestureAnimation := Some \<lparr>gesture = g, ga_startTime = elapsedTime s * 1000, isPlaying = True\<rparr>\<rparr>"

definition stopBodyGesture :: "PoseController \<Rightarrow> PoseController" where
  "stopBodyGesture s = s\<lparr>gestureAnimation := None\<rparr>"

definition setBodyMotion :: "BodyMotion \<Rightarrow> PoseController \<Rightarrow> PoseController" where
  "setBodyMotion motion s = s\<lparr>currentMotion := Some motion\<rparr>"

text \<open>
  The three assignments \<open>state.target.x/y/z = degToRad(from + (to - from) * t)\<close> that the
  pose transition and the gesture player share.
\<close>

definition interpolateTarget :: "vec3 \<Rightarrow> vec3 \<Rightarrow> real \<Rightarrow> BoneRotation" where
  "interpolateTarget fromRotation toRotation t =
     (case fromRotation of (f0, f1, f2) \<Rightarrow>
        (case toRotation of (t0, t1, t2) \<Rightarrow>
           (degToRad (f0 + (t0 - f0) * t),
            degToRad (f1 + (t1 - f1) * t),
            degToRad (f2 + (t2 - f2) * t))))"

text \<open>
  A transition or a gesture may have the duration \<open>0\<close>. A positive elapsed time divided by
  \<open>0\<close> is \<open>Infinity\<close> in the source: \<open>Math.min(Infinity, 1)\<close> is \<open>1\<close> and
  \<open>Infinity >= 1\<close> holds, which the two definitions below write out. An elapsed time of
  \<open>0\<close> or less divided by \<open>0\<close> is \<open>NaN\<close> or \<open>-Infinity\<close>: it fails \<open>>= 1\<close>, as the
  quotient of the embedding does, and the targets it then leads to are not finite.
\<close>

definition updatePoseTransition :: "PoseController \<Rightarrow> PoseController" where
  "updatePoseTransition s =
     (case poseTransition s of
        None \<Rightarrow> s
      | Some tr \<Rightarrow>
          (case humanoidOf s of
             None \<Rightarrow> s
           | Some h \<Rightarrow>
               (let elapsed = elapsedTime s - startTime tr;
                    progress = (if duration tr = 0 \<and> elapsed > 0 then 1
                                else min (elapsed / duration tr) 1);
                    easedProgress = easing tr progress;
                    s1 = s\<lparr>boneStates := (\<lambda>boneName.
                           case toPose tr boneName of
                             None \<Rightarrow> boneStates s boneName
                           | Some toRotation \<Rightarrow>
                               (case boneStates s boneName of
                                  None \<Rightarrow> None
                                | Some state \<Rightarrow>
                                    Some (state\<lparr>target :=
                                      interpolateTarget (orZero (fromPose tr boneName))
                                        toRotation easedProgress\<rparr>)))\<rparr>
                in if progress \<ge> 1 then s1\<lparr>poseTransition := None\<rparr> else s1)))"

text \<open>
  The search for the pair of keyframes around \<open>progress\<close>: the first \<open>i\<close> with
  \<open>keyframes[i].time \<le> progress < keyframes[i + 1].time\<close>, if there is one.
\<close>

fun bracket :: "real \<Rightarrow> Keyframe list \<Rightarrow> (Keyframe \<times> Keyframe) option" where
  "bracket progress (k # k' # ks) =
     (if progress \<ge> kf_time k \<and> progress < kf_time k' then Some (k, k')
      else bracket progress (k' # ks))"
| "bracket progress ks = None"

text \<open>
  The second half of \<open>updateGestureAnimation\<close>, from the keyframe search on. With no
  keyframe at all, \<open>keyframes[0]\<close> and \<open>keyframes[1] || keyframes[0]\<close> are both
  \<open>undefined\<close>, the search loop does not run, and reading \<open>nextKeyframe.time\<close> throws a
  \<open>TypeError\<close> outside every \<open>try\<close>.
\<close>

definition interpolateKeyframes :: "real \<Rightarrow> BodyGesture \<Rightarrow> PoseController \<Rightarrow> PoseController \<times> error option" where
  "interpolateKeyframes progress g s =
     (case keyframes g of
        [] \<Rightarrow> (s, Some TypeError)
      | k0 # rest \<Rightarrow>
          (let (prevKeyframe, nextKeyframe) =
                 (case bracket progress (k0 # rest) of
                    Some found \<Rightarrow> found
                  | None \<Rightarrow> (k0, case rest of [] \<Rightarrow> k0 | k1 # ks \<Rightarrow> k1));
               keyframeDuration = kf_time nextKeyframe - kf_time prevKeyframe;
               rawT = (if keyframeDuration > 0
                       then (progress - kf_time prevKeyframe) / keyframeDuration else 0);
               t = easeInOutSine rawT
           in (s\<lparr>boneStates := (\<lambda>boneName.
                    case kf_bones nextKeyframe boneName of
                      None \<Rightarrow> boneStates s boneName
                    | Some targetRotation \<Rightarrow>
                        (case boneStates s boneName of
                           None \<Rightarrow> None
                         | Some state \<Rightarrow>
                             Some (state\<lparr>target :=
                               interpolateTarget (orZero (kf_bones prevKeyframe boneName))
                                 targetRotation t\<rparr>)))\<rparr>,
               None)))"

text \<open>
  A call either returns or throws; either way it leaves a controller behind. The second
  component is the exception, if one was thrown.
\<close>

definition updateGestureAnimation :: "PoseController \<Rightarrow> PoseController \<times> error option" where
  "updateGestureAnimation s =
     (case gestureAnimation s of
        None \<Rightarrow> (s, None)
      | Some ga \<Rightarrow>
          (case humanoidOf s of
             None \<Rightarrow> (s, None)
           | Some h \<Rightarrow>
               if \<not> isPlaying ga then (s, None)
               else
                 (let elapsed = elapsedTime s * 1000 - ga_startTime ga;
                      progress = elapsed / g_duration (gesture ga)
                  in if (if g_duration (gesture ga) = 0 then elapsed > 0 else progress \<ge> 1) then
                       (if loop (gesture ga) then
                          interpolateKeyframes 0 (gesture ga)
                            (s\<lparr>gestureAnimation := Some (ga\<lparr>ga_startTime := elapsedTime s * 1000\<rparr>)\<rparr>)
                        else (s\<lparr>gestureAnimation := None\<rparr>, None))
                     else interpolateKeyframes progress (gesture ga) s)))"

definition setScenePositionY :: "real \<Rightarrow> PoseController \<Rightarrow> PoseController" where
  "setScenePositionY y s =
     (case vrm s of None \<Rightarrow> s | Some v \<Rightarrow> s\<lparr>vrm := Some (v\<lparr>scene := Some y\<rparr>)\<rparr>)"

definition sceneOf :: "PoseController \<Rightarrow> real option" where
  "sceneOf s = (case vrm s of None \<Rightarrow> None | Some v \<Rightarrow> scene v)"

definition updateBouncePosition :: "real \<Rightarrow> real \<Rightarrow> real \<Rightarrow> PoseController \<Rightarrow> PoseController" where
  "updateBouncePosition time amplitude delta s =
     (case sceneOf s of
        None \<Rightarrow> s
      | Some y \<Rightarrow>
          (let bounceValue = \<bar>sin (time * pi * 2)\<bar> * amplitude;
               targetY = fst (snd (basePosition s)) + bounceValue;
               (newY, newVelocity) =
                 smoothDamp (currentPositionY s) targetY (positionVelocityY s) 0.08 delta None
           in setScenePositionY newY
                (s\<lparr>currentPositionY := newY, positionVelocityY := newVelocity\<rparr>)))"

definition updateFloatPosition :: "real \<Rightarrow> real \<Rightarrow> real \<Rightarrow> PoseController \<Rightarrow> PoseController" where
  "updateFloatPosition time amplitude delta s =
     (case sceneOf s of
        None \<Rightarrow> s
      | Some y \<Rightarrow>
          (let floatValue = sin (time * pi * 0.5) * amplitude;
               targetY = fst (snd (basePosition s)) + floatValue;
               (newY, newVelocity) =
                 smoothDamp (currentPositionY s) targetY (positionVelocityY s) 0.3 delta None
           in setScenePositionY newY
                (s\<lparr>currentPositionY := newY, positionVelocityY := newVelocity\<rparr>)))"

text \<open>
  The \<open>switch\<close> of \<open>updateBodyMotion\<close> for the motion types that rotate bones: the offsets
  in degrees, built from an empty record.
\<close>

definition motionOffsets :: "BodyMotion \<Rightarrow> real \<Rightarrow> real \<Rightarrow> Pose" where
  "motionOffsets m time amplitude =
     (case m_type m of
        Breathing \<Rightarrow> calculateBreathingOffsets time amplitude Map.empty
      | Sway \<Rightarrow> calculateSwayOffsets time amplitude Map.empty
      | Walk \<Rightarrow>
          calculateWalkingOffsets time
            (case m_params m of None \<Rightarrow> noParams | Some ps \<Rightarrow> ps) (m_intensity m) Map.empty
      | Custom \<Rightarrow>
          calculateHeadMicroMovement time (m_intensity m)
            (calculateSwayOffsets (time * 0.7) (amplitude * 0.3)
               (calculateBreathingOffsets time (amplitude * 0.6) Map.empty))
      | Bounce \<Rightarrow> Map.empty
      | Float \<Rightarrow> Map.empty)"

text \<open>
  The last loop of \<open>updateBodyMotion\<close>: base pose plus offset, written as the target by
  \<open>state.target.x/y/z = degToRad(basePoseRotation[i] + offset[i])\<close>.
\<close>

definition offsetTarget :: "vec3 \<Rightarrow> vec3 \<Rightarrow> BoneRotation" where
  "offsetTarget basePoseRotation offset =
     (case basePoseRotation of (b0, b1, b2) \<Rightarrow>
        (case offset of (o0, o1, o2) \<Rightarrow>
           (degToRad (b0 + o0), degToRad (b1 + o1), degToRad (b2 + o2))))"

definition applyOffsets :: "Pose \<Rightarrow> PoseController \<Rightarrow> PoseController" where
  "applyOffsets offsets s =
     s\<lparr>boneStates := (\<lambda>boneName.
          case offsets boneName of
            None \<Rightarrow> boneStates s boneName
          | Some offset \<Rightarrow>
              (case boneStates s boneName of
                 None \<Rightarrow> None
               | Some state \<Rightarrow>
                   if poseTransition s = None then
                     Some (state\<lparr>target := offsetTarget (orZero (basePose s boneName)) offset\<rparr>)
                   else Some state))\<rparr>"

text \<open>\<open>this.gestureAnimation?.isPlaying\<close>\<close>

definition gesturePlaying :: "PoseController \<Rightarrow> bool" where
  "gesturePlaying s = (case gestureAnimation s of None \<Rightarrow> False | Some ga \<Rightarrow> isPlaying ga)"

definition updateBodyMotion :: "real \<Rightarrow> PoseController \<Rightarrow> PoseController" where
  "updateBodyMotion delta s =
     (case currentMotion s of
        None \<Rightarrow> s
      | Some m \<Rightarrow>
          (case humanoidOf s of
             None \<Rightarrow> s
           | Some h \<Rightarrow>
               if m_intensity m = 0 \<or> (m_type m = Custom \<and> m_params m = None) then s
               else if gesturePlaying s then s
               else
                 (let time = motionTime s * m_speed m;
                      amplitude =
                        orDefault (case m_params m of None \<Rightarrow> None | Some ps \<Rightarrow> p_amplitude ps) 2
                          * m_intensity m
                  in if m_type m = Bounce then updateBouncePosition time amplitude delta s
                     else if m_type m = Float then updateFloatPosition time amplitude delta s
                     else applyOffsets (motionOffsets m time amplitude) s)))"

text \<open>One bone of \<open>applyBoneRotations\<close>: smooth damping per axis, then the write to the rig.\<close>

definition dampBone :: "real \<Rightarrow> string \<times> string \<Rightarrow> PoseController \<Rightarrow> PoseController" where
  "dampBone delta entry s =
     (case entry of (boneName, vrmBoneName) \<Rightarrow>
        (case boneStates s boneName of
           None \<Rightarrow> s
         | Some state \<Rightarrow>
             (case humanoidOf s of
                None \<Rightarrow> s
              | Some h \<Rightarrow>
                  (case h vrmBoneName of
                     None \<Rightarrow> s
                   | Some bone \<Rightarrow>
                       (let (cx, cy, cz) = current state;
                            (tx, ty, tz) = target state;
                            (vx, vy, vz) = velocity state;
                            (cx', vx') = smoothDamp cx tx vx (smoothTime s) delta None;
                            (cy', vy') = smoothDamp cy ty vy (smoothTime s) delta None;
                            (cz', vz') = smoothDamp cz tz vz (smoothTime s) delta None
                        in setBoneRotation vrmBoneName (cx', cy', cz')
                             (s\<lparr>boneStates := (boneStates s)(boneName \<mapsto>
                                  state\<lparr>current := (cx', cy', cz'),
                                        velocity := (vx', vy', vz')\<rparr>)\<rparr>))))))"

definition applyBoneRotations :: "real \<Rightarrow> PoseController \<Rightarrow> PoseController" where
  "applyBoneRotations delta s =
     (case humanoidOf s of
        None \<Rightarrow> s
      | Some h \<Rightarrow> fold (dampBone delta) BONE_MAP s)"

definition update :: "real \<Rightarrow> PoseController \<Rightarrow> PoseController \<times> error option" where
  "update delta s =
     (case humanoidOf s of
        None \<Rightarrow> (s, None)
      | Some h \<Rightarrow>
          (let s1 = s\<lparr>motionTime := motionTime s + delta, elapsedTime := elapsedTime s + delta\<rparr>;
               s2 = updatePoseTransition s1;
               (s3, thrown) = updateGestureAnimation s2
           in case thrown of
                Some e \<Rightarrow> (s3, Some e)
              | None \<Rightarrow> (applyBoneRotations delta (updateBodyMotion delta s3), None)))"

text \<open>
  The controller inside a tick: as \<open>updateGestureAnimation\<close> finds it (time advanced, pose
  transition stepped), and as \<open>updateBodyMotion\<close> finds it (gesture stepped too).
\<close>

definition beforeGesture :: "real \<Rightarrow> PoseController \<Rightarrow> PoseController" where
  "beforeGesture delta s =
     updatePoseTransition
       (s\<lparr>motionTime := motionTime s + delta, elapsedTime := elapsedTime s + delta\<rparr>)"

definition beforeMotion :: "real \<Rightarrow> PoseController \<Rightarrow> PoseController" where
  "beforeMotion delta s = fst (updateGestureAnimation (beforeGesture delta s))"



definition getCurrentPose :: "PoseController \<Rightarrow> Pose" where
  "getCurrentPose s = (\<lambda>boneName. map_option (\<lambda>state. degrees (current state)) (boneStates s boneName))"

definition dispose :: "PoseController \<Rightarrow> PoseController" where
  "dispose s =
     s\<lparr>vrm := None, basePose := DEFAULT_RELAXED_POSE, currentMotion := None,
       gestureAnimation := None, boneStates := Map.empty, poseTransition := None\<rparr>"

text \<open>What \<open>getNormalizedBoneNode(name)?.rotation\<close> reads on the controller's rig.\<close>

definition boneRotation :: "PoseController \<Rightarrow> string \<Rightarrow> BoneRotation option" where
  "boneRotation s name = (case humanoidOf s of None \<Rightarrow> None | Some h \<Rightarrow> h name)"

text \<open>The render loop: one \<open>update\<close> per frame, with the frame's delta.\<close>

fun runTicks :: "real list \<Rightarrow> PoseController \<Rightarrow> PoseController" where
  "runTicks [] s = s"
| "runTicks (delta # deltas) s = runTicks deltas (fst (update delta s))"

text \<open>The joints of both hands in the table \<open>fingerBones\<close>, and those of the four fingers.\<close>

definition fingerJoints :: "string list" where
  "fingerJoints = concat (map (\<lambda>e. fst (snd e)) (fingerBones ''left'' @ fingerBones ''right''))"

definition thumbJoints :: "string list" where
  "thumbJoints =
     concat (map (\<lambda>e. fst (snd e)) (filter (\<lambda>e. snd (snd e)) (fingerBones ''left'' @ fingerBones ''right'')))"

definition nonThumbJoints :: "string list" where
  "nonThumbJoints =
     concat (map (\<lambda>e. fst (snd e)) (filter (\<lambda>e. \<not> snd (snd e)) (fingerBones ''left'' @ fingerBones ''right'')))"

section \<open>The speech mouth layer (layers.ts)\<close>













section \<open>Example inputs\<close>

text \<open>
  A small rig with some of the body bones and one finger joint, and values of the preset
  tables of poses.ts.
\<close>

definition exampleRig :: VRM where
  "exampleRig =
     \<lparr>humanoid = Some [''hips'' \<mapsto> (0, 0, 0), ''head'' \<mapsto> (0, 0, 0),
                       ''leftUpperArm'' \<mapsto> (0, 0, 0), ''rightUpperArm'' \<mapsto> (0, 0, 0),
                       ''leftIndexProximal'' \<mapsto> (0, 0.1, 0.2)],
      scene = Some 0\<rparr>"

definition emptyGesture :: BodyGesture where
  "emptyGesture = \<lparr>g_duration = 1000, loop = False, keyframes = []\<rparr>"


definition tpose :: PosePreset where
  "tpose = \<lparr>bones = [''leftUpperArm'' \<mapsto> (0, 0, - 90), ''rightUpperArm'' \<mapsto> (0, 0, 90),
                     ''leftLowerArm'' \<mapsto> (0, 0, 0), ''rightLowerArm'' \<mapsto> (0, 0, 0)]\<rparr>"

definition apose :: PosePreset where
  "apose = \<lparr>bones = [''leftUpperArm'' \<mapsto> (0, 0, - 45), ''rightUpperArm'' \<mapsto> (0, 0, 45),
                     ''leftLowerArm'' \<mapsto> (0, 0, 0), ''rightLowerArm'' \<mapsto> (0, 0, 0)]\<rparr>"

definition breathingNormal :: BodyMotion where
  "breathingNormal =
     \<lparr>m_speed = 1, m_intensity = 0.6, m_type = Breathing,
      m_params = Some \<lparr>p_amplitude = Some 2, p_strideLength = None, p_armSwing = None\<rparr>\<rparr>"


definition fist :: HandGesture where
  "fist = \<lparr>hand = BothHands,
           fingers = \<lparr>thumb = Some 1, index = Some 1, middle = Some 1, ring = Some 1, pinky = Some 1\<rparr>\<rparr>"

text \<open>Controllers on the example rig: with a pose transition started, and with a gesture playing.\<close>

definition posing :: PoseController where
  "posing = setBodyMotion breathingNormal (applyPose tpose (init exampleRig newPoseController))"












section \<open>Properties of the easing library\<close>





lemma breathingCurve_at:
  "rem1 (t * (bpm / 60)) = p \<Longrightarrow>
   breathingCurve t bpm = (if p < 0.4 then easeOutSine (p / 0.4) else 1 - easeInSine ((p - 0.4) / 0.6))"
  by (simp add: breathingCurve_def)

lemma rem1_add_one: "0 \<le> x \<Longrightarrow> rem1 (x + 1) = rem1 x"
  by (simp add: rem1_def frac_def)

text \<open>
  C6. For every \<open>bpm > 0\<close> the breathing curve has period \<open>60 / bpm\<close> seconds on \<open>t \<ge> 0\<close>,
  is \<open>0\<close> at \<open>t = 0\<close>, and is \<open>1\<close> at the phase-0.4 boundary \<open>t = 0.4 * 60 / bpm\<close>.
\<close>

theorem breathingCurve_period:
  assumes "0 < bpm"
  shows "(\<forall>t\<ge>0. breathingCurve (t + 60 / bpm) bpm = breathingCurve t bpm)
       \<and> breathingCurve 0 bpm = 0
       \<and> breathingCurve (0.4 * 60 / bpm) bpm = 1"
proof (intro conjI allI impI)
  fix t :: real
  assume t: "0 \<le> t"
  have shift: "(t + 60 / bpm) * (bpm / 60) = t * (bpm / 60) + 1"
    using assms by (simp add: field_simps)
  have "0 \<le> t * (bpm / 60)"
    using t assms by simp
  then have "rem1 (t * (bpm / 60) + 1) = rem1 (t * (bpm / 60))"
    by (rule rem1_add_one)
  then have "rem1 ((t + 60 / bpm) * (bpm / 60)) = rem1 (t * (bpm / 60))"
    unfolding shift .
  then show "breathingCurve (t + 60 / bpm) bpm = breathingCurve t bpm"
    by (simp only: breathingCurve_def Let_def)
next
  show "breathingCurve 0 bpm = 0"
    by (simp add: breathingCurve_def rem1_def easeOutSine_def)
next
  have "0.4 * 60 / bpm * (bpm / 60) = (0.4 :: real)"
    using assms by simp
  moreover have "rem1 (0.4 :: real) = 0.4"
    by (simp add: rem1_def frac_def floor_eq_iff)
  ultimately have "rem1 (0.4 * 60 / bpm * (bpm / 60)) = 0.4"
    by (simp only:)
  from breathingCurve_at [OF this] show "breathingCurve (0.4 * 60 / bpm) bpm = 1"
    by (simp add: easeInSine_def)
qed

theorem breathingCurve_period_witness:
  "breathingCurve (3 + 60 / 14) 14 = breathingCurve 3 14
 \<and> breathingCurve 0 14 = 0
 \<and> breathingCurve (0.4 * 60 / 14) 14 = 1"
proof -
  have "(\<forall>t\<ge>0. breathingCurve (t + 60 / 14) 14 = breathingCurve t 14)
      \<and> breathingCurve 0 14 = 0 \<and> breathingCurve (0.4 * 60 / 14) 14 = 1"
    using breathingCurve_period [of 14] by simp
  moreover have "(0::real) \<le> 3" by simp
  ultimately show ?thesis by blast
qed

section \<open>Properties of the motion generator\<close>

text \<open>
  C7. At every time, for every intensity and all walk parameters, the walking offsets of
  the two upper legs are opposite: the left leg gets \<open>sin(walkCycle) * stride\<close> on x, the
  right leg gets its negation, and both have \<open>0\<close> on y and z.
\<close>

theorem walking_upper_legs_opposite:
  "calculateWalkingOffsets t params intensity offsets ''leftUpperLeg''
     = Some (sin (t * pi * 2) * (orDefault (p_strideLength params) 25 * intensity), 0, 0)
 \<and> calculateWalkingOffsets t params intensity offsets ''rightUpperLeg''
     = Some (- (sin (t * pi * 2) * (orDefault (p_strideLength params) 25 * intensity)), 0, 0)"
  by (simp add: calculateWalkingOffsets_def Let_def)

text \<open>
  C9, as the claim states it, fails: the stride is the configured stride length times the
  intensity, and a walk motion with intensity \<open>1\<close> and a configured stride length of \<open>-100\<close>
  bends the left knee by \<open>-70\<close> degrees at \<open>t = 1/4\<close>.
\<close>

theorem knee_bend_negative_stride:
  "(0::real) \<le> 1 \<and> (1::real) \<le> 1
 \<and> calculateWalkingOffsets (1 / 4)
       \<lparr>p_amplitude = None, p_strideLength = Some (- 100), p_armSwing = None\<rparr> 1 Map.empty
       ''leftLowerLeg''
     = Some (- 70, 0, 0)"
  by (simp add: calculateWalkingOffsets_def Let_def orDefault_def)

text \<open>
  C9, amended. For every walk motion with intensity in \<open>[0, 1]\<close> whose configured stride
  length (after the default of \<open>25\<close>) is not negative, at every time the x offset of each
  lower leg is \<open>max(0, legPhase) * stride * 0.8 + max(0, legPhase) * 0.5 * 20\<close> for that leg's
  phase, and it is at least \<open>0\<close>.
\<close>

theorem knee_bend_nonneg:
  assumes "0 \<le> intensity" and "intensity \<le> 1" and "0 \<le> orDefault (p_strideLength params) 25"
  shows "\<exists>l r. calculateWalkingOffsets t params intensity offsets ''leftLowerLeg'' = Some (l, 0, 0)
             \<and> calculateWalkingOffsets t params intensity offsets ''rightLowerLeg'' = Some (r, 0, 0)
             \<and> l = max 0 (sin (t * pi * 2)) * (orDefault (p_strideLength params) 25 * intensity) * 0.8
                     + max 0 (sin (t * pi * 2)) * 0.5 * 20
             \<and> r = max 0 (sin (t * pi * 2 + pi)) * (orDefault (p_strideLength params) 25 * intensity) * 0.8
                     + max 0 (sin (t * pi * 2 + pi)) * 0.5 * 20
             \<and> 0 \<le> l \<and> 0 \<le> r"
  using assms by (simp add: calculateWalkingOffsets_def Let_def)

theorem knee_bend_nonneg_witness:
  "\<exists>l r. calculateWalkingOffsets (1 / 4)
            \<lparr>p_amplitude = Some 3, p_strideLength = Some 25, p_armSwing = Some 30\<rparr> 0.7 Map.empty
            ''leftLowerLeg'' = Some (l, 0, 0)
       \<and> calculateWalkingOffsets (1 / 4)
            \<lparr>p_amplitude = Some 3, p_strideLength = Some 25, p_armSwing = Some 30\<rparr> 0.7 Map.empty
            ''rightLowerLeg'' = Some (r, 0, 0)
       \<and> 0 \<le> l \<and> 0 \<le> r"
  using knee_bend_nonneg [of "0.7" "\<lparr>p_amplitude = Some 3, p_strideLength = Some 25, p_armSwing = Some 30\<rparr>" "1 / 4" Map.empty]
  by (simp add: orDefault_def)

section \<open>The rig under a tick\<close>

lemma humanoidOf_boneStates [simp]: "humanoidOf (s\<lparr>boneStates := b\<rparr>) = humanoidOf s"
  by (simp add: humanoidOf_def)

lemma humanoidOf_poseTransition [simp]: "humanoidOf (s\<lparr>poseTransition := b\<rparr>) = humanoidOf s"
  by (simp add: humanoidOf_def)

lemma humanoidOf_gestureAnimation [simp]: "humanoidOf (s\<lparr>gestureAnimation := b\<rparr>) = humanoidOf s"
  by (simp add: humanoidOf_def)

lemma humanoidOf_times [simp]:
  "humanoidOf (s\<lparr>motionTime := a, elapsedTime := b\<rparr>) = humanoidOf s"
  by (simp add: humanoidOf_def)

lemma humanoidOf_position [simp]:
  "humanoidOf (s\<lparr>currentPositionY := a, positionVelocityY := b\<rparr>) = humanoidOf s"
  by (simp add: humanoidOf_def)

lemma humanoidOf_setScenePositionY [simp]: "humanoidOf (setScenePositionY y s) = humanoidOf s"
  by (simp add: humanoidOf_def setScenePositionY_def split: option.splits)

lemma boneRotation_setBoneRotation_other:
  "m \<noteq> n \<Longrightarrow> boneRotation (setBoneRotation n r s) m = boneRotation s m"
  by (simp add: boneRotation_def setBoneRotation_def humanoidOf_def split: option.splits)

lemma boneRotation_boneStates [simp]: "boneRotation (s\<lparr>boneStates := b\<rparr>) = boneRotation s"
  by (simp add: boneRotation_def fun_eq_iff)

lemma boneRotation_dampBone:
  "n \<noteq> snd entry \<Longrightarrow> boneRotation (dampBone delta entry s) n = boneRotation s n"
  by (cases entry)
     (simp add: dampBone_def Let_def boneRotation_setBoneRotation_other
           split: option.splits prod.splits)

lemma boneRotation_fold_dampBone:
  "n \<notin> snd ` set entries \<Longrightarrow> boneRotation (fold (dampBone delta) entries s) n = boneRotation s n"
  by (induction entries arbitrary: s) (simp_all add: boneRotation_dampBone)

lemma boneRotation_applyBoneRotations:
  "n \<notin> snd ` set BONE_MAP \<Longrightarrow> boneRotation (applyBoneRotations delta s) n = boneRotation s n"
  by (simp add: applyBoneRotations_def boneRotation_fold_dampBone split: option.splits)

lemma humanoidOf_updatePoseTransition [simp]: "humanoidOf (updatePoseTransition s) = humanoidOf s"
  by (simp add: updatePoseTransition_def Let_def split: option.splits)

lemma humanoidOf_interpolateKeyframes [simp]:
  "humanoidOf (fst (interpolateKeyframes p g s)) = humanoidOf s"
  by (simp add: interpolateKeyframes_def Let_def split: list.splits option.splits prod.splits)

lemma humanoidOf_updateGestureAnimation [simp]:
  "humanoidOf (fst (updateGestureAnimation s)) = humanoidOf s"
  by (simp add: updateGestureAnimation_def Let_def split: option.splits)

lemma humanoidOf_applyOffsets [simp]: "humanoidOf (applyOffsets offs s) = humanoidOf s"
  by (simp add: applyOffsets_def)

lemma humanoidOf_updateBodyMotion [simp]: "humanoidOf (updateBodyMotion delta s) = humanoidOf s"
  by (simp add: updateBodyMotion_def updateBouncePosition_def updateFloatPosition_def Let_def
           split: option.splits prod.splits)

lemma boneRotation_cong: "humanoidOf s = humanoidOf s' \<Longrightarrow> boneRotation s = boneRotation s'"
  by (simp add: boneRotation_def fun_eq_iff)

lemma boneRotation_update:
  assumes "n \<notin> snd ` set BONE_MAP"
  shows "boneRotation (fst (update delta s)) n = boneRotation s n"
proof (cases "humanoidOf s")
  case None
  then show ?thesis by (simp add: update_def)
next
  case (Some h)
  let ?s1 = "s\<lparr>motionTime := motionTime s + delta, elapsedTime := elapsedTime s + delta\<rparr>"
  let ?s2 = "updatePoseTransition ?s1"
  obtain s3 thrown where g: "updateGestureAnimation ?s2 = (s3, thrown)"
    by (cases "updateGestureAnimation ?s2")
  have h3: "humanoidOf s3 = humanoidOf s"
    using humanoidOf_updateGestureAnimation [of ?s2] g by simp
  show ?thesis
  proof (cases thrown)
    case None
    then have "fst (update delta s) = applyBoneRotations delta (updateBodyMotion delta s3)"
      using Some g by (simp add: update_def Let_def)
    moreover have "boneRotation (updateBodyMotion delta s3) = boneRotation s"
      by (rule boneRotation_cong) (simp add: h3)
    ultimately show ?thesis
      using assms by (simp add: boneRotation_applyBoneRotations)
  next
    case (Some e)
    then have "fst (update delta s) = s3"
      using \<open>humanoidOf s = Some h\<close> g by (simp add: update_def Let_def)
    then show ?thesis
      using boneRotation_cong [OF h3] by simp
  qed
qed

lemma boneRotation_runTicks:
  "n \<notin> snd ` set BONE_MAP \<Longrightarrow> boneRotation (runTicks deltas s) n = boneRotation s n"
  by (induction deltas arbitrary: s) (simp_all add: boneRotation_update)

lemma fingerJoints_all:
  "list_all (\<lambda>j. map_of BONE_MAP j = None \<and> j \<notin> set (map snd BONE_MAP)) fingerJoints"
  by code_simp

lemma fingerJoints_outside_BONE_MAP:
  "j \<in> set fingerJoints \<Longrightarrow> map_of BONE_MAP j = None \<and> j \<notin> snd ` set BONE_MAP"
  using fingerJoints_all by (simp add: list_all_iff)

section \<open>Hand gestures and the tick\<close>

lemma boneRotation_setBoneRotation_same:
  "humanoidOf s \<noteq> None \<Longrightarrow> boneRotation (setBoneRotation n r s) n = Some r"
  by (auto simp add: boneRotation_def setBoneRotation_def humanoidOf_def split: option.splits)

lemma curlJoint_keeps_yz:
  assumes "isThumb \<longrightarrow> j \<noteq> snd joint"
    and "\<exists>x. boneRotation s j = Some (x, y, z)"
  shows "\<exists>x. boneRotation (curlJoint side isThumb curl joint s) j = Some (x, y, z)"
proof (cases joint)
  case (Pair i boneName)
  show ?thesis
  proof (cases "j = boneName")
    case True
    with assms Pair have nt: "\<not> isThumb" by auto
    from assms(2) obtain x where x: "boneRotation s j = Some (x, y, z)" by blast
    then obtain h where h: "humanoidOf s = Some h" "h j = Some (x, y, z)"
      by (auto simp add: boneRotation_def split: option.splits)
    have "boneRotation (curlJoint side isThumb curl joint s) j
            = Some (curl * maxCurl * (curlDistribution isThumb ! i) * 2.5, y, z)"
      using Pair True nt h
      by (simp add: curlJoint_def Let_def boneRotation_setBoneRotation_same)
    then show ?thesis by blast
  next
    case False
    then have "boneRotation (curlJoint side isThumb curl joint s) j = boneRotation s j"
      using Pair
      by (simp add: curlJoint_def Let_def boneRotation_setBoneRotation_other
               split: option.splits prod.splits)
    with assms(2) show ?thesis by simp
  qed
qed

lemma fold_curlJoint_keeps_yz:
  assumes "isThumb \<longrightarrow> j \<notin> set joints"
    and "\<exists>x. boneRotation s j = Some (x, y, z)"
  shows "\<exists>x. boneRotation (fold (curlJoint side isThumb curl) (enumerate n joints) s) j = Some (x, y, z)"
  using assms
proof (induction joints arbitrary: n s)
  case Nil
  then show ?case by simp
next
  case (Cons a joints)
  have "\<exists>x. boneRotation (curlJoint side isThumb curl (n, a) s) j = Some (x, y, z)"
    using Cons.prems by (intro curlJoint_keeps_yz) auto
  with Cons show ?case by simp
qed

lemma thumb_row_in:
  "(fingerName, joints, True) \<in> set rows \<Longrightarrow>
   set joints \<subseteq> set (concat (map (\<lambda>e. fst (snd e)) (filter (\<lambda>e. snd (snd e)) rows)))"
  by (induction rows) auto

lemma thumb_row:
  assumes "map_of (fingerBones (sidePrefix side)) fingerName = Some (joints, True)"
  shows "set joints \<subseteq> set thumbJoints"
proof -
  from assms have row: "(fingerName, joints, True) \<in> set (fingerBones (sidePrefix side))"
    by (rule map_of_SomeD)
  have "sidePrefix side = ''left'' \<or> sidePrefix side = ''right''"
    by (simp add: sidePrefix_def)
  with row have "(fingerName, joints, True) \<in> set (fingerBones ''left'' @ fingerBones ''right'')"
    by (simp only: set_append Un_iff) metis
  then show ?thesis
    unfolding thumbJoints_def by (rule thumb_row_in)
qed

lemma curlFinger_keeps_yz:
  assumes "j \<notin> set thumbJoints"
    and "\<exists>x. boneRotation s j = Some (x, y, z)"
  shows "\<exists>x. boneRotation (curlFinger side entry s) j = Some (x, y, z)"
proof (cases entry)
  case (Pair fingerName curlOpt)
  show ?thesis
  proof (cases curlOpt)
    case None
    with Pair assms show ?thesis by (simp add: curlFinger_def)
  next
    case (Some curl)
    show ?thesis
    proof (cases "map_of (fingerBones (sidePrefix side)) fingerName")
      case None
      with Pair Some assms show ?thesis by (simp add: curlFinger_def)
    next
      case row: (Some a)
      obtain joints isThumb where a: "a = (joints, isThumb)" by (cases a)
      have "isThumb \<longrightarrow> j \<notin> set joints"
        using thumb_row [of side fingerName joints] row a assms(1) by auto
      from fold_curlJoint_keeps_yz [OF this assms(2)]
      show ?thesis using Pair Some row a by (simp add: curlFinger_def)
    qed
  qed
qed

lemma fold_curlFinger_keeps_yz:
  assumes "j \<notin> set thumbJoints"
    and "\<exists>x. boneRotation s j = Some (x, y, z)"
  shows "\<exists>x. boneRotation (fold (curlFinger side) entries s) j = Some (x, y, z)"
  using assms(2)
  by (induction entries arbitrary: s) (simp_all add: curlFinger_keeps_yz [OF assms(1)])

lemma applyFingerPose_keeps_yz:
  assumes "j \<notin> set thumbJoints"
    and "\<exists>x. boneRotation s j = Some (x, y, z)"
  shows "\<exists>x. boneRotation (applyFingerPose side f s) j = Some (x, y, z)"
  using assms
  by (simp add: applyFingerPose_def fold_curlFinger_keeps_yz split: option.splits)

lemma applyHandGesture_keeps_yz:
  assumes "j \<notin> set thumbJoints"
    and "\<exists>x. boneRotation s j = Some (x, y, z)"
  shows "\<exists>x. boneRotation (applyHandGesture g s) j = Some (x, y, z)"
  using assms
  by (simp add: applyHandGesture_def Let_def applyFingerPose_keeps_yz split: option.splits)

lemma nonThumb_all:
  "list_all (\<lambda>j. j \<notin> set thumbJoints \<and> j \<in> set fingerJoints) nonThumbJoints"
  by code_simp

lemma nonThumb_not_thumb: "j \<in> set nonThumbJoints \<Longrightarrow> j \<notin> set thumbJoints"
  using nonThumb_all by (simp add: list_all_iff)

text \<open>
  C10. \<open>BONE_MAP\<close> has no finger joint. So whatever ticks follow \<open>applyHandGesture\<close>, a
  finger joint keeps the rotation \<open>applyHandGesture\<close> left it with: no smoothing reaches it.
  On a joint of the four fingers other than the thumb, \<open>applyHandGesture\<close> writes x only:
  y and z stay as they were.
\<close>

theorem finger_joints_bypass_smoothing:
  assumes "j \<in> set fingerJoints"
  shows "map_of BONE_MAP j = None
       \<and> boneRotation (runTicks deltas (applyHandGesture g s)) j = boneRotation (applyHandGesture g s) j
       \<and> (j \<in> set nonThumbJoints \<longrightarrow> boneRotation s j = Some (x, y, z) \<longrightarrow>
            (\<exists>x'. boneRotation (applyHandGesture g s) j = Some (x', y, z)))"
proof (intro conjI impI)
  show "map_of BONE_MAP j = None"
    using fingerJoints_outside_BONE_MAP [OF assms] by simp
  show "boneRotation (runTicks deltas (applyHandGesture g s)) j = boneRotation (applyHandGesture g s) j"
    using fingerJoints_outside_BONE_MAP [OF assms] by (simp add: boneRotation_runTicks)
next
  assume "j \<in> set nonThumbJoints" and "boneRotation s j = Some (x, y, z)"
  then show "\<exists>x'. boneRotation (applyHandGesture g s) j = Some (x', y, z)"
    by (intro applyHandGesture_keeps_yz nonThumb_not_thumb) auto
qed

theorem finger_joints_bypass_smoothing_witness:
  "''leftIndexProximal'' \<in> set fingerJoints
 \<and> ''leftIndexProximal'' \<in> set nonThumbJoints
 \<and> boneRotation (init exampleRig newPoseController) ''leftIndexProximal'' = Some (0, 0.1, 0.2)
 \<and> boneRotation (runTicks [1 / 60, 1 / 60] (applyHandGesture fist (init exampleRig newPoseController)))
       ''leftIndexProximal''
     = boneRotation (applyHandGesture fist (init exampleRig newPoseController)) ''leftIndexProximal''
 \<and> (\<exists>x'. boneRotation (applyHandGesture fist (init exampleRig newPoseController))
            ''leftIndexProximal'' = Some (x', 0.1, 0.2))"
proof -
  have m: "''leftIndexProximal'' \<in> set fingerJoints"
    by code_simp
  have n: "''leftIndexProximal'' \<in> set nonThumbJoints"
    by code_simp
  have r: "boneRotation (init exampleRig newPoseController) ''leftIndexProximal'' = Some (0, 0.1, 0.2)"
    by (simp add: init_def newPoseController_def exampleRig_def initializeBoneStates_def
          applyPoseImmediate_def humanoidOf_def BONE_MAP_def poseBoneImmediate_def
          DEFAULT_RELAXED_POSE_def setBoneRotation_def boneRotation_def)
  from finger_joints_bypass_smoothing [OF m, of "[1 / 60, 1 / 60]" fist
      "init exampleRig newPoseController" 0 "0.1" "0.2"] m n r
  show ?thesis by simp
qed

section \<open>The steps of a tick\<close>

lemma applyOffsets_in_transition:
  "poseTransition s \<noteq> None \<Longrightarrow> boneStates (applyOffsets offs s) = boneStates s"
  by (auto simp add: applyOffsets_def fun_eq_iff split: option.splits)

lemma boneStates_setScenePositionY [simp]:
  "boneStates (setScenePositionY y s) = boneStates s"
  by (simp add: setScenePositionY_def split: option.splits)

lemma boneStates_updateBouncePosition [simp]:
  "boneStates (updateBouncePosition time amplitude delta s) = boneStates s"
  by (simp add: updateBouncePosition_def Let_def split: option.splits prod.splits)

lemma boneStates_updateFloatPosition [simp]:
  "boneStates (updateFloatPosition time amplitude delta s) = boneStates s"
  by (simp add: updateFloatPosition_def Let_def split: option.splits prod.splits)

lemma updateBodyMotion_suppressed:
  assumes "poseTransition s \<noteq> None \<or> gesturePlaying s"
  shows "boneStates (updateBodyMotion delta s) = boneStates s"
proof (cases "gesturePlaying s")
  case True
  then show ?thesis
    by (simp add: updateBodyMotion_def split: option.splits)
next
  case False
  with assms have "poseTransition s \<noteq> None" by simp
  then show ?thesis
    by (simp add: updateBodyMotion_def Let_def applyOffsets_in_transition split: option.splits)
qed

lemma target_setBoneRotation [simp]:
  "boneStates (setBoneRotation n r s) = boneStates s"
  by (simp add: setBoneRotation_def split: option.splits)

lemma target_dampBone:
  "map_option target (boneStates (dampBone delta entry s) b) = map_option target (boneStates s b)"
  by (cases entry) (simp add: dampBone_def Let_def split: option.splits prod.splits)

lemma target_fold_dampBone:
  "map_option target (boneStates (fold (dampBone delta) entries s) b) = map_option target (boneStates s b)"
  by (induction entries arbitrary: s) (simp_all add: target_dampBone)

lemma target_applyBoneRotations:
  "map_option target (boneStates (applyBoneRotations delta s) b) = map_option target (boneStates s b)"
  by (simp add: applyBoneRotations_def target_fold_dampBone split: option.splits)


lemma no_humanoid_updatePoseTransition:
  "humanoidOf s = None \<Longrightarrow> updatePoseTransition s = s"
  by (simp add: updatePoseTransition_def split: option.splits)

lemma no_humanoid_updateGestureAnimation:
  "humanoidOf s = None \<Longrightarrow> updateGestureAnimation s = (s, None)"
  by (simp add: updateGestureAnimation_def split: option.splits)

lemma update_unfold:
  "humanoidOf s \<noteq> None \<Longrightarrow>
   update delta s =
     (case snd (updateGestureAnimation (beforeGesture delta s)) of
        Some e \<Rightarrow> (beforeMotion delta s, Some e)
      | None \<Rightarrow> (applyBoneRotations delta (updateBodyMotion delta (beforeMotion delta s)), None))"
  by (cases "updateGestureAnimation (beforeGesture delta s)")
     (auto simp add: update_def beforeGesture_def beforeMotion_def Let_def split: option.splits)

lemma tick_targets:
  assumes "boneStates (updateBodyMotion delta (beforeMotion delta s)) = boneStates (beforeMotion delta s)"
  shows "map_option target (boneStates (fst (update delta s)) b)
           = map_option target (boneStates (beforeMotion delta s) b)"
proof (cases "humanoidOf s")
  case None
  then have "beforeMotion delta s
               = s\<lparr>motionTime := motionTime s + delta, elapsedTime := elapsedTime s + delta\<rparr>"
    by (simp add: beforeMotion_def beforeGesture_def no_humanoid_updatePoseTransition
          no_humanoid_updateGestureAnimation)
  with None show ?thesis by (simp add: update_def)
next
  case (Some h)
  then show ?thesis
    using assms by (simp add: update_unfold target_applyBoneRotations split: option.splits)
qed

text \<open>
  C2. Within a tick, when the motion step runs while a pose transition is in flight or a
  gesture is playing, it changes no bone state: a playing gesture stops it before any offset
  is computed, a transition in flight stops every write of a computed offset. Every bone
  target at the end of the tick is then the one the transition and gesture steps left:
  no \<open>basePose + offset\<close> target was written in that tick.
\<close>

theorem motion_suspended:
  assumes "poseTransition (beforeMotion delta s) \<noteq> None \<or> gesturePlaying (beforeMotion delta s)"
  shows "boneStates (updateBodyMotion delta (beforeMotion delta s)) = boneStates (beforeMotion delta s)
       \<and> (\<forall>b. map_option target (boneStates (fst (update delta s)) b)
                 = map_option target (boneStates (beforeMotion delta s) b))"
proof -
  have "boneStates (updateBodyMotion delta (beforeMotion delta s)) = boneStates (beforeMotion delta s)"
    using assms by (rule updateBodyMotion_suppressed)
  then show ?thesis
    by (simp add: tick_targets)
qed

lemma init_humanoid: "humanoidOf (init exampleRig newPoseController) \<noteq> None"
  by (simp add: init_def newPoseController_def exampleRig_def initializeBoneStates_def
        applyPoseImmediate_def humanoidOf_def BONE_MAP_def poseBoneImmediate_def
        DEFAULT_RELAXED_POSE_def setBoneRotation_def)

lemmas init_eval = init_def newPoseController_def exampleRig_def initializeBoneStates_def
        applyPoseImmediate_def humanoidOf_def BONE_MAP_def poseBoneImmediate_def
        DEFAULT_RELAXED_POSE_def setBoneRotation_def

lemma posing_in_flight: "poseTransition (beforeMotion (1 / 60) posing) \<noteq> None"
  by (simp add: posing_def beforeMotion_def beforeGesture_def updateGestureAnimation_def
        updatePoseTransition_def setBodyMotion_def applyPose_def Let_def init_eval)

theorem motion_suspended_witness:
  "poseTransition (beforeMotion (1 / 60) posing) \<noteq> None
 \<and> currentMotion posing = Some breathingNormal
 \<and> boneStates (updateBodyMotion (1 / 60) (beforeMotion (1 / 60) posing))
     = boneStates (beforeMotion (1 / 60) posing)
 \<and> map_option target (boneStates (fst (update (1 / 60) posing)) ''leftUpperArm'')
     = map_option target (boneStates (beforeMotion (1 / 60) posing) ''leftUpperArm'')"
proof -
  have "currentMotion posing = Some breathingNormal"
    by (simp add: posing_def setBodyMotion_def)
  with posing_in_flight show ?thesis
    using motion_suspended [of "1 / 60" posing] by simp
qed

lemma updatePoseTransition_gestureAnimation [simp]:
  "gestureAnimation (updatePoseTransition s) = gestureAnimation s"
  by (simp add: updatePoseTransition_def Let_def split: option.splits)

lemma updatePoseTransition_elapsedTime [simp]:
  "elapsedTime (updatePoseTransition s) = elapsedTime s"
  by (simp add: updatePoseTransition_def Let_def split: option.splits)

lemma beforeGesture_fields [simp]:
  "gestureAnimation (beforeGesture delta s) = gestureAnimation s"
  "elapsedTime (beforeGesture delta s) = elapsedTime s + delta"
  "humanoidOf (beforeGesture delta s) = humanoidOf s"
  by (simp_all add: beforeGesture_def)


lemma gestureAnimation_setScenePositionY [simp]:
  "gestureAnimation (setScenePositionY y s) = gestureAnimation s"
  "poseTransition (setScenePositionY y s) = poseTransition s"
  by (simp_all add: setScenePositionY_def split: option.splits)

lemma updateBodyMotion_keeps [simp]:
  "gestureAnimation (updateBodyMotion delta s) = gestureAnimation s"
  "poseTransition (updateBodyMotion delta s) = poseTransition s"
  by (simp_all add: updateBodyMotion_def updateBouncePosition_def updateFloatPosition_def
        applyOffsets_def Let_def split: option.splits prod.splits)

lemma setBoneRotation_keeps [simp]:
  "gestureAnimation (setBoneRotation n r s) = gestureAnimation s"
  "poseTransition (setBoneRotation n r s) = poseTransition s"
  by (simp_all add: setBoneRotation_def split: option.splits)

lemma dampBone_keeps [simp]:
  "gestureAnimation (dampBone delta entry s) = gestureAnimation s"
  "poseTransition (dampBone delta entry s) = poseTransition s"
  by (cases entry; simp add: dampBone_def Let_def split: option.splits prod.splits)+

lemma fold_dampBone_keeps [simp]:
  "gestureAnimation (fold (dampBone delta) entries s) = gestureAnimation s"
  "poseTransition (fold (dampBone delta) entries s) = poseTransition s"
  by (induction entries arbitrary: s) simp_all

lemma applyBoneRotations_keeps [simp]:
  "gestureAnimation (applyBoneRotations delta s) = gestureAnimation s"
  "poseTransition (applyBoneRotations delta s) = poseTransition s"
  by (simp_all add: applyBoneRotations_def split: option.splits)

lemma humanoidOf_setBoneRotation:
  "humanoidOf (setBoneRotation n r s) = map_option (\<lambda>h. h(n \<mapsto> r)) (humanoidOf s)"
  by (simp add: setBoneRotation_def humanoidOf_def split: option.splits)

lemma humanoidOf_dampBone [simp]:
  "(humanoidOf (dampBone delta entry s) = None) = (humanoidOf s = None)"
  by (cases entry)
     (auto simp add: dampBone_def Let_def humanoidOf_setBoneRotation split: option.splits prod.splits)

lemma humanoidOf_fold_dampBone [simp]:
  "(humanoidOf (fold (dampBone delta) entries s) = None) = (humanoidOf s = None)"
  by (induction entries arbitrary: s) simp_all

lemma humanoidOf_update:
  assumes "humanoidOf s \<noteq> None"
  shows "humanoidOf (fst (update delta s)) \<noteq> None"
proof -
  have "humanoidOf (beforeMotion delta s) \<noteq> None"
    using assms by (simp add: beforeMotion_def)
  then have "humanoidOf (applyBoneRotations delta (updateBodyMotion delta (beforeMotion delta s))) \<noteq> None"
    by (simp add: applyBoneRotations_def del: not_None_eq split: option.splits)
  with \<open>humanoidOf (beforeMotion delta s) \<noteq> None\<close> show ?thesis
    using assms by (simp add: update_unfold split: option.splits)
qed


lemma updatePoseTransition_keeps [simp]:
  "currentMotion (updatePoseTransition s) = currentMotion s"
  "motionTime (updatePoseTransition s) = motionTime s"
  "basePose (updatePoseTransition s) = basePose s"
  "(boneStates (updatePoseTransition s) b = None) = (boneStates s b = None)"
  by (simp_all add: updatePoseTransition_def Let_def split: option.splits)

lemma interpolateKeyframes_cases:
  obtains (throws) "keyframes g = []" and "interpolateKeyframes p g s = (s, Some TypeError)"
  | (writes) prev :: Keyframe and nxt :: Keyframe and t where
      "interpolateKeyframes p g s =
         (s\<lparr>boneStates := (\<lambda>boneName.
              case kf_bones nxt boneName of
                None \<Rightarrow> boneStates s boneName
              | Some targetRotation \<Rightarrow>
                  (case boneStates s boneName of
                     None \<Rightarrow> None
                   | Some state \<Rightarrow>
                       Some (state\<lparr>target :=
                         interpolateTarget (orZero (kf_bones prev boneName)) targetRotation t\<rparr>)))\<rparr>,
          None)"
proof (cases "keyframes g")
  case Nil
  then show ?thesis by (intro throws) (simp_all add: interpolateKeyframes_def)
next
  case (Cons k0 rest)
  obtain prev nxt where pn:
    "(case bracket p (k0 # rest) of Some found \<Rightarrow> found
      | None \<Rightarrow> (k0, case rest of [] \<Rightarrow> k0 | k1 # ks \<Rightarrow> k1)) = (prev, nxt)"
    by (cases "case bracket p (k0 # rest) of Some found \<Rightarrow> found
      | None \<Rightarrow> (k0, case rest of [] \<Rightarrow> k0 | k1 # ks \<Rightarrow> k1)")
  show ?thesis
    by (rule writes [where prev = prev and nxt = nxt])
       (simp add: interpolateKeyframes_def Cons pn Let_def)
qed

lemma interpolateKeyframes_keeps [simp]:
  "currentMotion (fst (interpolateKeyframes p g s)) = currentMotion s"
  "motionTime (fst (interpolateKeyframes p g s)) = motionTime s"
  "basePose (fst (interpolateKeyframes p g s)) = basePose s"
  "poseTransition (fst (interpolateKeyframes p g s)) = poseTransition s"
  "(boneStates (fst (interpolateKeyframes p g s)) b = None) = (boneStates s b = None)"
  by (cases p g s rule: interpolateKeyframes_cases; simp split: option.splits)+

lemma updateGestureAnimation_keeps [simp]:
  "currentMotion (fst (updateGestureAnimation s)) = currentMotion s"
  "motionTime (fst (updateGestureAnimation s)) = motionTime s"
  "basePose (fst (updateGestureAnimation s)) = basePose s"
  "poseTransition (fst (updateGestureAnimation s)) = poseTransition s"
  "(boneStates (fst (updateGestureAnimation s)) b = None) = (boneStates s b = None)"
  by (simp_all add: updateGestureAnimation_def Let_def split: option.splits)

lemma setScenePositionY_keeps [simp]:
  "currentMotion (setScenePositionY y s) = currentMotion s"
  "motionTime (setScenePositionY y s) = motionTime s"
  "basePose (setScenePositionY y s) = basePose s"
  by (simp_all add: setScenePositionY_def split: option.splits)

lemma updateBodyMotion_frame [simp]:
  "currentMotion (updateBodyMotion delta s) = currentMotion s"
  "motionTime (updateBodyMotion delta s) = motionTime s"
  "basePose (updateBodyMotion delta s) = basePose s"
  "(boneStates (updateBodyMotion delta s) b = None) = (boneStates s b = None)"
  by (simp_all add: updateBodyMotion_def updateBouncePosition_def updateFloatPosition_def
        applyOffsets_def Let_def split: option.splits prod.splits)

lemma setBoneRotation_frame [simp]:
  "currentMotion (setBoneRotation n r s) = currentMotion s"
  "motionTime (setBoneRotation n r s) = motionTime s"
  "basePose (setBoneRotation n r s) = basePose s"
  by (simp_all add: setBoneRotation_def split: option.splits)

lemma dampBone_frame [simp]:
  "currentMotion (dampBone delta entry s) = currentMotion s"
  "motionTime (dampBone delta entry s) = motionTime s"
  "basePose (dampBone delta entry s) = basePose s"
  "(boneStates (dampBone delta entry s) b = None) = (boneStates s b = None)"
  by (cases entry; simp add: dampBone_def Let_def split: option.splits prod.splits)+

lemma fold_dampBone_frame [simp]:
  "currentMotion (fold (dampBone delta) entries s) = currentMotion s"
  "motionTime (fold (dampBone delta) entries s) = motionTime s"
  "basePose (fold (dampBone delta) entries s) = basePose s"
  "(boneStates (fold (dampBone delta) entries s) b = None) = (boneStates s b = None)"
  by (induction entries arbitrary: s) simp_all

lemma applyBoneRotations_frame [simp]:
  "currentMotion (applyBoneRotations delta s) = currentMotion s"
  "motionTime (applyBoneRotations delta s) = motionTime s"
  "basePose (applyBoneRotations delta s) = basePose s"
  "(boneStates (applyBoneRotations delta s) b = None) = (boneStates s b = None)"
  by (simp_all add: applyBoneRotations_def split: option.splits)

lemma update_keeps:
  "currentMotion (fst (update delta s)) = currentMotion s"
  "basePose (fst (update delta s)) = basePose s"
  "(boneStates (fst (update delta s)) b = None) = (boneStates s b = None)"
  "poseTransition s = None \<Longrightarrow> poseTransition (fst (update delta s)) = None"
  "humanoidOf s \<noteq> None \<Longrightarrow> motionTime (fst (update delta s)) = motionTime s + delta"
proof -
  have u: "humanoidOf s = None \<Longrightarrow> fst (update delta s) = s"
    by (simp add: update_def)
  have v: "humanoidOf s \<noteq> None \<Longrightarrow>
           fst (update delta s) = beforeMotion delta s
         \<or> fst (update delta s) = applyBoneRotations delta (updateBodyMotion delta (beforeMotion delta s))"
    by (simp add: update_unfold split: option.splits)
  have m: "currentMotion (beforeMotion delta s) = currentMotion s"
          "basePose (beforeMotion delta s) = basePose s"
          "(boneStates (beforeMotion delta s) b = None) = (boneStates s b = None)"
          "motionTime (beforeMotion delta s) = motionTime s + delta"
    by (simp_all add: beforeMotion_def beforeGesture_def)
  have p: "poseTransition s = None \<Longrightarrow> poseTransition (beforeMotion delta s) = None"
    by (simp add: beforeMotion_def beforeGesture_def updatePoseTransition_def)
  show "currentMotion (fst (update delta s)) = currentMotion s"
    using u v m by (cases "humanoidOf s = None") auto
  show "basePose (fst (update delta s)) = basePose s"
    using u v m by (cases "humanoidOf s = None") auto
  show "(boneStates (fst (update delta s)) b = None) = (boneStates s b = None)"
    using u v m(3) by (cases "humanoidOf s = None") auto
  show "poseTransition s = None \<Longrightarrow> poseTransition (fst (update delta s)) = None"
    using u v p by (cases "humanoidOf s = None") auto
  show "humanoidOf s \<noteq> None \<Longrightarrow> motionTime (fst (update delta s)) = motionTime s + delta"
    using v m(4) by auto
qed



section \<open>The end of a gesture\<close>











lemma interpolateKeyframes_keeps_time [simp]:
  "elapsedTime (fst (interpolateKeyframes p g s)) = elapsedTime s"
  "gestureAnimation (fst (interpolateKeyframes p g s)) = gestureAnimation s"
  by (cases p g s rule: interpolateKeyframes_cases; simp)+

lemma updateGestureAnimation_elapsedTime [simp]:
  "elapsedTime (fst (updateGestureAnimation s)) = elapsedTime s"
  by (simp add: updateGestureAnimation_def Let_def split: option.splits)

lemma setScenePositionY_elapsedTime [simp]:
  "elapsedTime (setScenePositionY y s) = elapsedTime s"
  by (simp add: setScenePositionY_def split: option.splits)

lemma updateBodyMotion_elapsedTime [simp]:
  "elapsedTime (updateBodyMotion delta s) = elapsedTime s"
  by (simp add: updateBodyMotion_def updateBouncePosition_def updateFloatPosition_def
        applyOffsets_def Let_def split: option.splits prod.splits)

lemma setBoneRotation_elapsedTime [simp]:
  "elapsedTime (setBoneRotation n r s) = elapsedTime s"
  by (simp add: setBoneRotation_def split: option.splits)

lemma dampBone_elapsedTime [simp]:
  "elapsedTime (dampBone delta entry s) = elapsedTime s"
  by (cases entry) (simp add: dampBone_def Let_def split: option.splits prod.splits)

lemma fold_dampBone_elapsedTime [simp]:
  "elapsedTime (fold (dampBone delta) entries s) = elapsedTime s"
  by (induction entries arbitrary: s) simp_all

lemma applyBoneRotations_elapsedTime [simp]:
  "elapsedTime (applyBoneRotations delta s) = elapsedTime s"
  by (simp add: applyBoneRotations_def split: option.splits)











section \<open>A gesture without keyframes\<close>

lemma empty_keyframes_throw:
  assumes "humanoidOf s \<noteq> None" and "keyframes g = []" and "g_duration g \<noteq> 0"
    and "delta * 1000 / g_duration g < 1 \<or> loop g"
  shows "snd (update delta (playBodyGesture g s)) = Some TypeError"
proof -
  let ?s = "playBodyGesture g s"
  have h: "humanoidOf ?s \<noteq> None"
    using assms(1) by (simp add: playBodyGesture_def humanoidOf_def)
  have ga: "gestureAnimation (beforeGesture delta ?s)
              = Some \<lparr>gesture = g, ga_startTime = elapsedTime s * 1000, isPlaying = True\<rparr>"
    by (simp add: playBodyGesture_def)
  have el: "elapsedTime (beforeGesture delta ?s) = elapsedTime s + delta"
    by (simp add: playBodyGesture_def)
  have "(elapsedTime s + delta) * 1000 - elapsedTime s * 1000 = delta * 1000"
    by (simp add: algebra_simps)
  then have "snd (updateGestureAnimation (beforeGesture delta ?s)) = Some TypeError"
    using h ga el assms(2,3,4)
    by (auto simp add: updateGestureAnimation_def interpolateKeyframes_def Let_def
             split: option.splits)
  then show ?thesis
    using h by (simp add: update_unfold)
qed

text \<open>
  C1. The claim is that no exception leaves \<open>update\<close> and that a gesture with no keyframe is
  a no-op. On an initialized controller, \<open>playBodyGesture\<close> of a gesture of 1000 ms with an
  empty keyframe list followed by \<open>update(0.016)\<close> throws a \<open>TypeError\<close> out of \<open>update\<close>.
\<close>

theorem update_empty_gesture_throws:
  "snd (update (16 / 1000) (playBodyGesture emptyGesture (init exampleRig newPoseController)))
     = Some TypeError"
  by (rule empty_keyframes_throw) (simp_all add: init_humanoid emptyGesture_def)

section \<open>Pose transitions\<close>

lemma applyPose_boneStates [simp]: "boneStates (applyPose B s) = boneStates s"
  by (simp add: applyPose_def Let_def split: option.splits)

lemma applyPose_humanoidOf [simp]: "humanoidOf (applyPose B s) = humanoidOf s"
  by (simp add: applyPose_def Let_def humanoidOf_def split: option.splits)

lemma fold_applyPose_keeps [simp]:
  "boneStates (fold applyPose Bs s) = boneStates s"
  "humanoidOf (fold applyPose Bs s) = humanoidOf s"
  by (induction Bs arbitrary: s) simp_all

lemma applyPose_transition:
  assumes "humanoidOf s \<noteq> None"
  shows "poseTransition (applyPose B s)
           = Some \<lparr>fromPose = (\<lambda>boneName.
                      case (basePose s ++ bones B) boneName of
                        None \<Rightarrow> None
                      | Some r \<Rightarrow>
                          (case boneStates s boneName of
                             Some state \<Rightarrow> Some (degrees (current state))
                           | None \<Rightarrow> Some (orZero (basePose s boneName)))),
                    toPose = basePose s ++ bones B,
                    startTime = elapsedTime s, duration = transitionDuration s,
                    easing = easeInOutCubic\<rparr>"
  using assms by (auto simp add: applyPose_def Let_def)

lemma applyPose_forgets_transition:
  "humanoidOf s \<noteq> None \<Longrightarrow> applyPose B (s\<lparr>poseTransition := old\<rparr>) = applyPose B s"
  by (auto simp add: applyPose_def Let_def humanoidOf_def split: option.splits cong: option.case_cong)

text \<open>
  C3, amended. \<open>applyPose(B)\<close>, also after any run of earlier \<open>applyPose\<close> calls and with a
  transition in flight, starts a transition to \<open>merge(basePose, B.bones)\<close> whose \<open>fromPose\<close>
  gives every bone that the merged pose lists and that has a bone state its current
  rotation in degrees, and has no entry for a bone the merged pose does not list. The
  transition that was in flight has no part in the result, and the calls leave the bones'
  current rotations as they are.
\<close>

theorem applyPose_starts_from_current:
  assumes "humanoidOf s \<noteq> None"
  shows "\<exists>tr. poseTransition (applyPose B (fold applyPose Bs s)) = Some tr
            \<and> toPose tr = basePose (fold applyPose Bs s) ++ bones B
            \<and> (\<forall>b st. toPose tr b \<noteq> None \<longrightarrow> boneStates s b = Some st \<longrightarrow>
                   fromPose tr b = Some (degrees (current st)))
            \<and> (\<forall>b. toPose tr b = None \<longrightarrow> fromPose tr b = None)
            \<and> startTime tr = elapsedTime (fold applyPose Bs s)
            \<and> applyPose B ((fold applyPose Bs s)\<lparr>poseTransition := old\<rparr>)
                = applyPose B (fold applyPose Bs s)"
proof -
  let ?s = "fold applyPose Bs s"
  have h: "humanoidOf ?s \<noteq> None"
    using assms by simp
  show ?thesis
    unfolding applyPose_transition [OF h] applyPose_forgets_transition [OF h]
    by (auto simp add: map_add_def split: option.splits)
qed

text \<open>
  C3, as the claim states it, fails: \<open>fromPose\<close> is built over the bones of
  \<open>merge(basePose, B.bones)\<close> only. With the T-pose transition in flight, \<open>hips\<close> has a bone
  state, yet the \<open>fromPose\<close> of the transition that \<open>applyPose(apose)\<close> starts has no \<open>hips\<close>.
\<close>

theorem applyPose_skips_untouched_bone:
  "poseTransition (applyPose tpose (init exampleRig newPoseController)) \<noteq> None
 \<and> boneStates (applyPose tpose (init exampleRig newPoseController)) ''hips''
     = Some \<lparr>current = (0, 0, 0), target = (0, 0, 0), velocity = (0, 0, 0)\<rparr>
 \<and> fromPose (the (poseTransition (applyPose apose (applyPose tpose (init exampleRig newPoseController)))))
       ''hips'' = None"
  by (simp add: applyPose_def Let_def tpose_def apose_def init_eval radians_def degToRad_def map_add_def)

lemma degrees_radians: "degrees (radians r) = r"
  by (cases r) (simp add: degrees_def radians_def degToRad_def)

theorem applyPose_starts_from_current_witness:
  "(\<exists>tr. poseTransition (applyPose apose (fold applyPose [tpose] (init exampleRig newPoseController))) = Some tr
      \<and> toPose tr ''leftUpperArm'' = Some (0, 0, - 45)
      \<and> fromPose tr ''leftUpperArm'' = Some (20, 0, - 70))
 \<and> (\<exists>tr st. boneStates (fst (update (1 / 5) (applyPose tpose (init exampleRig newPoseController))))
                ''leftUpperArm'' = Some st
        \<and> poseTransition (applyPose apose
              (fst (update (1 / 5) (applyPose tpose (init exampleRig newPoseController))))) = Some tr
        \<and> toPose tr ''leftUpperArm'' = Some (0, 0, - 45)
        \<and> fromPose tr ''leftUpperArm'' = Some (degrees (current st)))"
proof (intro conjI)
  let ?st = "\<lparr>current = radians (20, 0, - 70), target = radians (20, 0, - 70), velocity = (0, 0, 0)\<rparr>"
  have bs: "boneStates (init exampleRig newPoseController) ''leftUpperArm'' = Some ?st"
    by (simp add: init_eval)
  have tp: "(basePose (fold applyPose [tpose] (init exampleRig newPoseController)) ++ bones apose)
              ''leftUpperArm'' = Some (0, 0, - 45)"
    by (simp add: apose_def)
  obtain tr where
      p: "poseTransition (applyPose apose (fold applyPose [tpose] (init exampleRig newPoseController))) = Some tr"
    and t: "toPose tr = basePose (fold applyPose [tpose] (init exampleRig newPoseController)) ++ bones apose"
    and f: "\<forall>b st. toPose tr b \<noteq> None \<longrightarrow> boneStates (init exampleRig newPoseController) b = Some st \<longrightarrow>
                   fromPose tr b = Some (degrees (current st))"
    using applyPose_starts_from_current [OF init_humanoid, of apose "[tpose]" None] by blast
  have t': "toPose tr ''leftUpperArm'' = Some (0, 0, - 45)"
    unfolding t by (rule tp)
  then have "toPose tr ''leftUpperArm'' \<noteq> None"
    by simp
  with f bs have "fromPose tr ''leftUpperArm'' = Some (degrees (current ?st))"
    by blast
  with p t' show "\<exists>tr. poseTransition (applyPose apose (fold applyPose [tpose] (init exampleRig newPoseController))) = Some tr
      \<and> toPose tr ''leftUpperArm'' = Some (0, 0, - 45)
      \<and> fromPose tr ''leftUpperArm'' = Some (20, 0, - 70)"
    by (intro exI [of _ tr]) (simp add: degrees_radians)
next
  let ?s = "fst (update (1 / 5) (applyPose tpose (init exampleRig newPoseController)))"
  have h: "humanoidOf ?s \<noteq> None"
    by (intro humanoidOf_update) (simp add: init_humanoid)
  have "boneStates (applyPose tpose (init exampleRig newPoseController)) ''leftUpperArm'' \<noteq> None"
    by (simp add: init_eval)
  then obtain st where bs: "boneStates ?s ''leftUpperArm'' = Some st"
    using update_keeps(3) [of "1 / 5" "applyPose tpose (init exampleRig newPoseController)" "''leftUpperArm''"]
    by auto
  have tp: "(basePose (fold applyPose [] ?s) ++ bones apose) ''leftUpperArm'' = Some (0, 0, - 45)"
    by (simp add: apose_def)
  obtain tr where
      p: "poseTransition (applyPose apose (fold applyPose [] ?s)) = Some tr"
    and t: "toPose tr = basePose (fold applyPose [] ?s) ++ bones apose"
    and f: "\<forall>b st. toPose tr b \<noteq> None \<longrightarrow> boneStates ?s b = Some st \<longrightarrow>
                   fromPose tr b = Some (degrees (current st))"
    using applyPose_starts_from_current [OF h, of apose "[]" None] by blast
  have t': "toPose tr ''leftUpperArm'' = Some (0, 0, - 45)"
    unfolding t by (rule tp)
  then have "toPose tr ''leftUpperArm'' \<noteq> None"
    by simp
  with f bs have "fromPose tr ''leftUpperArm'' = Some (degrees (current st))"
    by blast
  with p t' bs show "\<exists>tr st. boneStates ?s ''leftUpperArm'' = Some st
        \<and> poseTransition (applyPose apose ?s) = Some tr
        \<and> toPose tr ''leftUpperArm'' = Some (0, 0, - 45)
        \<and> fromPose tr ''leftUpperArm'' = Some (degrees (current st))"
    by (intro exI [of _ tr] exI [of _ st]) simp
qed

section \<open>The mouth layer\<close>

lemma Fin_minus [simp]: "Fin a - Fin b = Fin (a - b)"
  by (simp add: minus_number_def)

lemma Fin_divide: "b \<noteq> 0 \<Longrightarrow> Fin a / Fin b = Fin (a / b)"
  by simp

lemma Fin_less_eq [simp]: "(Fin a \<le> Fin b) = (a \<le> b)"
  by (auto simp add: less_eq_number_def)

lemma jsMax_Fin [simp]: "jsMax (Fin a) (Fin b) = Fin (max a b)"
  by (simp add: jsMax_def max_def)

lemma jsMin_Fin [simp]: "jsMin (Fin a) (Fin b) = Fin (min a b)"
  by (simp add: jsMin_def min_def)

lemma jsMin_PInf [simp]: "jsMin PInf (Fin a) = Fin a"
  by (simp add: jsMin_def)

lemma jsMax_NInf [simp]: "jsMax NInf (Fin a) = Fin a"
  by (simp add: jsMax_def)









lemma NaN_absorbs [simp]:
  "a + NaN = NaN" "NaN + a = NaN" "a - NaN = NaN" "NaN - a = NaN"
  "a * NaN = NaN" "NaN * a = NaN" "a / NaN = NaN" "NaN / a = NaN"
  "jsMax a NaN = NaN" "jsMax NaN a = NaN" "jsMin a NaN = NaN" "jsMin NaN a = NaN"
  "\<not> a < NaN" "\<not> NaN < a"
  by (cases a; simp add: minus_number_def jsMax_def jsMin_def)+














end
